theory Spec2Isabelle
  imports
    Complex_Main
    "HOL-Library.Multiset"
    "HOL-Library.List_Lexorder"
    "HOL-Library.Char_ord"
    "HOL-Library.Product_Lexorder"
begin

section \<open>The F1 lap times pipeline (f1\_lap\_times\_pipeline.py)\<close>

text \<open>
  The pipeline is the class \<open>F1LapTimesProcessor\<close>: \<open>validate_data\<close>, \<open>extract\<close>,
  \<open>transform\<close>, \<open>get_top_n\<close>, \<open>load_json\<close>. It works on pandas data frames. The
  embedding keeps what the methods do with a frame and writes the pandas operations they call
  as list functions.

  \<^item> A time is a real number; \<open>min\<close> and \<open>round(3)\<close> are exact on it.
  \<^item> A cell of a frame holds a value or is missing (\<open>NaN\<close>, what \<open>read_csv\<close> makes of a
    blank field): a cell is an \<open>option\<close>, \<open>None\<close> for the missing one. A time that
    \<open>transform\<close> computes is an \<open>option\<close> as well, \<open>None\<close> for \<open>NaN\<close>.
  \<^item> \<open>sort_values\<close> is called with the library's default algorithm. Its contract is that
    the rows come back sorted by the key, rows with a \<open>NaN\<close> key last; the order of rows
    with equal keys is not fixed by the source. The sort is a parameter \<open>srt\<close> of
    \<open>transform\<close>, and the theorems hold for every sort that meets the contract
    \<open>sort_values_spec\<close>.
  \<^item> The mean of a group is computed in 64-bit floating point. It is a parameter \<open>avg\<close> of
    \<open>transform\<close>, and the general theorems hold for every function \<open>avg\<close>. The exact
    mean \<open>mean\<close> is the instance used where a frame is evaluated.
\<close>

subsection \<open>Data frames\<close>

datatype cell = Num real | Str string

text \<open>
  A column has a numeric dtype (int64, float64) or the object dtype (strings); in both a
  cell may be missing.
\<close>

datatype column = Numeric "real option list" | Object "string option list"

text \<open>A frame: its columns in order, each with its name.\<close>

type_synonym dataframe = "(string \<times> column) list"

fun col_len :: "column \<Rightarrow> nat" where
  "col_len (Numeric ts) = length ts"
| "col_len (Object ss) = length ss"

fun cells :: "column \<Rightarrow> cell option list" where
  "cells (Numeric ts) = map (map_option Num) ts"
| "cells (Object ss) = map (map_option Str) ss"

text \<open>The values of the cells that are not missing, in order.\<close>

fun dropna :: "'a option list \<Rightarrow> 'a list" where
  "dropna [] = []"
| "dropna (None # xs) = dropna xs"
| "dropna (Some x # xs) = x # dropna xs"

definition df_columns :: "dataframe \<Rightarrow> string list" where
  "df_columns df = map fst df"

text \<open>\<open>len(df)\<close>: the number of rows.\<close>

fun df_len :: "dataframe \<Rightarrow> nat" where
  "df_len [] = 0"
| "df_len ((name, c) # df) = col_len c"

text \<open>\<open>df.empty\<close>: some axis has length zero.\<close>

definition df_empty :: "dataframe \<Rightarrow> bool" where
  "df_empty df = (df_columns df = [] \<or> df_len df = 0)"

text \<open>Every frame has distinct column names and columns of one length.\<close>

definition well_formed :: "dataframe \<Rightarrow> bool" where
  "well_formed df =
     (distinct (df_columns df) \<and> list_all (\<lambda>(name, c). col_len c = df_len df) df)"

subsection \<open>Errors and the processor's state\<close>

datatype error =
    ValueError string
  | KeyError string
  | TypeError
  | IndexError
  | FileNotFoundError

record agg_stats =
  Driver :: cell
  average_time :: "real option"
  fastest_time :: "real option"
  lap_count :: nat

record driver_stats = agg_stats +
  rank :: nat

record processor =
  input_file :: string
  data :: "dataframe option"
  results :: "driver_stats list option"

definition init :: "string \<Rightarrow> processor" where
  "init f = \<lparr>input_file = f, data = None, results = None\<rparr>"

subsection \<open>validate\_data\<close>

definition required_columns :: "string list" where
  "required_columns = [''Driver'', ''Time'']"

text \<open>
  The four checks of \<open>validate_data\<close>, each raising \<open>ValueError\<close> with its message. A
  missing time is not below zero: \<open>(df['Time'] < 0).any()\<close> looks at the values that are
  there.
\<close>

definition validate_data :: "dataframe \<Rightarrow> error + bool" where
  "validate_data df =
     (if \<not> list_all (\<lambda>c. c \<in> set (df_columns df)) required_columns
      then Inl (ValueError ''Missing required columns. Expected: ['Driver', 'Time']'')
      else if df_empty df
      then Inl (ValueError ''Input file is empty'')
      else (case map_of df ''Time'' of
              None \<Rightarrow> Inl (KeyError ''Time'')
            | Some (Object ss) \<Rightarrow> Inl (ValueError ''Time column must contain numeric values'')
            | Some (Numeric ts) \<Rightarrow>
                if list_ex (\<lambda>t. t < 0) (dropna ts)
                then Inl (ValueError ''Time values cannot be negative'')
                else Inr True))"

subsection \<open>extract\<close>

text \<open>
  \<open>read\<close> is what \<open>pd.read_csv(self.input_file)\<close> gives: a frame or the error it raises
  (\<open>FileNotFoundError\<close> for a missing file). The handlers of \<open>extract\<close> log and re-raise.
  The method is \<open>extract_csv\<close> here, \<open>extract\<close> being a command of Isabelle.
\<close>

definition extract_csv :: "error + dataframe \<Rightarrow> processor \<Rightarrow> error + dataframe \<times> processor" where
  "extract_csv read p =
     (case read of
        Inl e \<Rightarrow> Inl e
      | Inr df \<Rightarrow>
          (case validate_data df of
             Inl e \<Rightarrow> Inl e
           | Inr ok \<Rightarrow> Inr (df, p\<lparr>data := Some df\<rparr>)))"

subsection \<open>transform\<close>

text \<open>
  \<open>groupby('Driver')\<close> with the defaults \<open>sort=True\<close> and \<open>dropna=True\<close>: the rows without
  a driver are left out, there is one group per distinct key, and the keys come in ascending
  order. Strings compare lexicographically by character code, numbers by value; a column
  holds one kind.
\<close>

fun cell_key :: "cell \<Rightarrow> bool \<times> real \<times> string" where
  "cell_key (Num q) = (False, q, [])"
| "cell_key (Str s) = (True, 0, s)"

definition group_keys :: "cell option list \<Rightarrow> cell list" where
  "group_keys ds = sort_key cell_key (remdups (dropna ds))"

text \<open>The times of the rows of driver \<open>k\<close> that are not missing.\<close>

definition group_times :: "cell option list \<Rightarrow> real option list \<Rightarrow> cell \<Rightarrow> real list" where
  "group_times ds ts k = dropna (map snd (filter (\<lambda>(d, t). d = Some k) (zip ds ts)))"

text \<open>The exact mean; the mean that the library computes is the parameter \<open>avg\<close> below.\<close>

definition mean :: "real list \<Rightarrow> real" where
  "mean ts = sum_list ts / of_nat (length ts)"

fun minimum :: "real list \<Rightarrow> real" where
  "minimum [] = 0"
| "minimum [t] = t"
| "minimum (t # ts) = min t (minimum ts)"

text \<open>
  The named aggregation: \<open>mean\<close>, \<open>min\<close> and \<open>count\<close> of \<open>Time\<close> per group. All three skip
  the missing times; \<open>mean\<close> and \<open>min\<close> of a group without any time are \<open>NaN\<close>, its
  \<open>count\<close> is 0.
\<close>

definition skipna :: "(real list \<Rightarrow> real) \<Rightarrow> real list \<Rightarrow> real option" where
  "skipna f ts = (if ts = [] then None else Some (f ts))"

definition agg ::
  "(real list \<Rightarrow> real) \<Rightarrow> cell option list \<Rightarrow> real option list \<Rightarrow> cell \<Rightarrow> agg_stats" where
  "agg avg ds ts k =
     \<lparr>Driver = k,
      average_time = skipna avg (group_times ds ts k),
      fastest_time = skipna minimum (group_times ds ts k),
      lap_count = length (group_times ds ts k)\<rparr>"

definition groupby_agg :: "(real list \<Rightarrow> real) \<Rightarrow> dataframe \<Rightarrow> error + agg_stats list" where
  "groupby_agg avg df =
     (case map_of df ''Driver'' of
        None \<Rightarrow> Inl (KeyError ''Driver'')
      | Some dc \<Rightarrow>
          (case map_of df ''Time'' of
             None \<Rightarrow> Inl (KeyError ''Time'')
           | Some (Object ss) \<Rightarrow> Inl TypeError
           | Some (Numeric ts) \<Rightarrow>
               Inr (map (agg avg (cells dc) ts) (group_keys (cells dc)))))"

text \<open>
  The contract of \<open>sort_values(by, ascending=True)\<close>, with the default
  \<open>na_position='last'\<close>: the same rows, in ascending order of the key, the rows whose key is
  \<open>NaN\<close> after all others. \<open>na_last\<close> turns a key into a value of a linear order that says
  so. \<open>insertion_sort\<close> is one sort that meets the contract.
\<close>

fun na_last :: "real option \<Rightarrow> bool \<times> real" where
  "na_last None = (True, 0)"
| "na_last (Some x) = (False, x)"

type_synonym sorter = "(agg_stats \<Rightarrow> real option) \<Rightarrow> agg_stats list \<Rightarrow> agg_stats list"

definition sort_values_spec :: "sorter \<Rightarrow> bool" where
  "sort_values_spec srt =
     (\<forall>f xs. mset (srt f xs) = mset xs \<and> sorted (map (\<lambda>x. na_last (f x)) (srt f xs)))"

definition insertion_sort :: sorter where
  "insertion_sort f xs = sort_key (\<lambda>x. na_last (f x)) xs"

text \<open>\<open>driver_stats['rank'] = range(1, len(driver_stats) + 1)\<close>: row \<open>i\<close> gets rank \<open>i + 1\<close>.\<close>

definition with_rank :: "agg_stats \<Rightarrow> nat \<Rightarrow> driver_stats" where
  "with_rank r i =
     \<lparr>Driver = Driver r, average_time = average_time r, fastest_time = fastest_time r,
      lap_count = lap_count r, rank = i\<rparr>"

definition add_rank :: "agg_stats list \<Rightarrow> driver_stats list" where
  "add_rank xs = map2 with_rank xs [1 ..< length xs + 1]"

text \<open>
  \<open>round(3)\<close>: scale by 1000, round to the nearest integer with halves to the even one,
  scale back; \<open>NaN\<close> stays \<open>NaN\<close>.
\<close>

definition rint :: "real \<Rightarrow> int" where
  "rint x =
     (if frac x < 1 / 2 then \<lfloor>x\<rfloor>
      else if 1 / 2 < frac x then \<lfloor>x\<rfloor> + 1
      else if even \<lfloor>x\<rfloor> then \<lfloor>x\<rfloor> else \<lfloor>x\<rfloor> + 1)"

definition round3 :: "real \<Rightarrow> real" where
  "round3 x = of_int (rint (x * 1000)) / 1000"

definition round_times :: "driver_stats \<Rightarrow> driver_stats" where
  "round_times r =
     r\<lparr>average_time := map_option round3 (average_time r),
       fastest_time := map_option round3 (fastest_time r)\<rparr>"

text \<open>
  Lines 74 to 81 of \<open>transform\<close>: sort by the mean, number the rows, round the two times.
  The rows are sorted on the mean as computed; the rounding comes after the ranks. The log
  line after the rounding reads \<open>driver_stats.iloc[0]\<close>, which raises \<open>IndexError\<close> on a
  frame without rows.
\<close>

definition sort_rank_round :: "sorter \<Rightarrow> agg_stats list \<Rightarrow> driver_stats list" where
  "sort_rank_round srt grouped = map round_times (add_rank (srt average_time grouped))"

definition transform ::
  "sorter \<Rightarrow> (real list \<Rightarrow> real) \<Rightarrow> processor \<Rightarrow> error + driver_stats list \<times> processor" where
  "transform srt avg p =
     (case data p of
        None \<Rightarrow> Inl (ValueError ''No data loaded. Call extract() first.'')
      | Some df \<Rightarrow>
          (case groupby_agg avg df of
             Inl e \<Rightarrow> Inl e
           | Inr grouped \<Rightarrow>
               (let driver_stats = sort_rank_round srt grouped
                in if driver_stats = [] then Inl IndexError
                   else Inr (driver_stats, p\<lparr>results := Some driver_stats\<rparr>))))"

subsection \<open>get\_top\_n and load\_json\<close>

text \<open>
  \<open>head(n)\<close>: the first \<open>n\<close> rows; for a negative \<open>n\<close>, all rows but the last \<open>|n|\<close>.
\<close>

definition head :: "int \<Rightarrow> 'a list \<Rightarrow> 'a list" where
  "head n xs = (if 0 \<le> n then take (nat n) xs else take (length xs - nat (- n)) xs)"

definition get_top_n :: "int \<Rightarrow> processor \<Rightarrow> error + driver_stats list" where
  "get_top_n n p =
     (case results p of
        None \<Rightarrow> Inl (ValueError ''No results available. Call transform() first.'')
      | Some res \<Rightarrow> Inr (head n res))"

record summary =
  top_drivers :: "driver_stats list"
  total_drivers_analyzed :: nat
  total_laps_analyzed :: nat

text \<open>
  \<open>load_json\<close> builds \<open>result_dict\<close> and dumps it to the output file; the model returns the
  dictionary. \<open>self.data['Driver'].count()\<close> is the number of cells of the column that are
  not missing.
\<close>

definition load_json :: "int \<Rightarrow> processor \<Rightarrow> error + summary" where
  "load_json top_n p =
     (case get_top_n top_n p of
        Inl e \<Rightarrow> Inl e
      | Inr top_n_rows \<Rightarrow>
          (case results p of
             None \<Rightarrow> Inl TypeError
           | Some res \<Rightarrow>
               (case data p of
                  None \<Rightarrow> Inl TypeError
                | Some df \<Rightarrow>
                    (case map_of df ''Driver'' of
                       None \<Rightarrow> Inl (KeyError ''Driver'')
                     | Some dc \<Rightarrow>
                         Inr \<lparr>top_drivers = top_n_rows,
                              total_drivers_analyzed = length res,
                              total_laps_analyzed = length (dropna (cells dc))\<rparr>))))"

subsection \<open>Quantities the claims speak of\<close>

text \<open>
  \<open>df['Driver']\<close> and \<open>df['Driver'].nunique()\<close>, the number of distinct drivers that
  \<open>validate_data\<close> logs; a missing cell is no driver.
\<close>

definition driver_column :: "dataframe \<Rightarrow> cell option list" where
  "driver_column df = (case map_of df ''Driver'' of None \<Rightarrow> [] | Some dc \<Rightarrow> cells dc)"

definition time_column :: "dataframe \<Rightarrow> real option list" where
  "time_column df = (case map_of df ''Time'' of Some (Numeric ts) \<Rightarrow> ts | _ \<Rightarrow> [])"

definition nunique :: "cell option list \<Rightarrow> nat" where
  "nunique ds = length (remdups (dropna ds))"

text \<open>The input records: the rows of the frame, as pairs of a driver cell and a time cell.\<close>

definition records :: "dataframe \<Rightarrow> (cell option \<times> real option) list" where
  "records df = zip (driver_column df) (time_column df)"



fun float_le :: "real option \<Rightarrow> real option \<Rightarrow> bool" where
  "float_le (Some x) (Some y) = (x \<le> y)"
| "float_le a b = False"



text \<open>
  A sort that meets the contract of \<open>sort_values\<close> and puts rows with equal keys in the
  reverse of their order: a descending insertion sort, read backwards.
\<close>

fun na_first :: "real option \<Rightarrow> bool \<times> real" where
  "na_first None = (False, 0)"
| "na_first (Some x) = (True, - x)"

definition reversing_sort :: sorter where
  "reversing_sort f xs = rev (sort_key (\<lambda>x. na_first (f x)) xs)"

subsection \<open>Frames used as examples\<close>

text \<open>The frame of the unit tests (\<open>setUpClass\<close> of test\_f1\_pipeline.py).\<close>

definition test_data :: dataframe where
  "test_data =
     [(''Driver'', Object (map Some [''Hamilton'', ''Verstappen'', ''Hamilton'', ''Verstappen'',
                                    ''Leclerc'', ''Hamilton'', ''Leclerc'', ''Verstappen''])),
      (''Time'', Numeric (map Some [4.32, 4.28, 4.45, 4.31, 4.50, 4.38, 4.48, 4.29]))]"

definition test_processor :: processor where
  "test_processor = (init ''test_lap_times.csv'')\<lparr>data := Some test_data\<rparr>"

definition test_results :: "driver_stats list" where
  "test_results =
     [\<lparr>Driver = Str ''Verstappen'', average_time = Some 4.293, fastest_time = Some 4.28,
       lap_count = 3, rank = 1\<rparr>,
      \<lparr>Driver = Str ''Hamilton'', average_time = Some 4.383, fastest_time = Some 4.32,
       lap_count = 3, rank = 2\<rparr>,
      \<lparr>Driver = Str ''Leclerc'', average_time = Some 4.49, fastest_time = Some 4.48,
       lap_count = 2, rank = 3\<rparr>]"

text \<open>Two drivers whose means differ in the fourth decimal.\<close>

definition close_data :: dataframe where
  "close_data =
     [(''Driver'', Object [Some ''Albon'', Some ''Bottas'']),
      (''Time'', Numeric [Some 1.0004, Some 1.0001])]"

definition close_processor :: processor where
  "close_processor = (init ''close.csv'')\<lparr>data := Some close_data\<rparr>"

text \<open>Two drivers with the same mean.\<close>

definition tied_data :: dataframe where
  "tied_data =
     [(''Driver'', Object [Some ''Bottas'', Some ''Albon'']),
      (''Time'', Numeric [Some 1.5, Some 1.5])]"

definition tied_processor :: processor where
  "tied_processor = (init ''tied.csv'')\<lparr>data := Some tied_data\<rparr>"

text \<open>
  Frames that \<open>validate_data\<close> rejects: the tests' frame without a \<open>Time\<close> column, the
  tests' frame without rows, a frame whose times are text, the tests' frame with a negative
  time.
\<close>

definition wrong_column_data :: dataframe where
  "wrong_column_data =
     [(''Driver'', Object [Some ''Hamilton'']), (''WrongColumn'', Numeric [Some 4.32])]"

definition empty_data :: dataframe where
  "empty_data = [(''Driver'', Object []), (''Time'', Object [])]"

definition text_time_data :: dataframe where
  "text_time_data = [(''Driver'', Object [Some ''Hamilton'']), (''Time'', Object [Some ''fast''])]"

definition negative_time_data :: dataframe where
  "negative_time_data = [(''Driver'', Object [Some ''Hamilton'']), (''Time'', Numeric [Some (- 4.32)])]"

text \<open>
  Files with blank fields, as \<open>read_csv\<close> reads them; no driver has more than one time in
  them, so that the mean of a driver is his one time. The lines of the first are
  \<open>Hamilton,4.32\<close>, \<open>Hamilton,\<close> and \<open>Verstappen,4.28\<close>; of the second \<open>Hamilton,4.32\<close>,
  \<open>,4.40\<close> and \<open>Verstappen,4.28\<close>; of the third \<open>Hamilton,4.32\<close> and \<open>Verstappen,\<close>; the
  fourth has the one line \<open>Hamilton,\<close>, the fifth the one line \<open>,4.30\<close>.
\<close>

definition blank_time_data :: dataframe where
  "blank_time_data =
     [(''Driver'', Object [Some ''Hamilton'', Some ''Hamilton'', Some ''Verstappen'']),
      (''Time'', Numeric [Some 4.32, None, Some 4.28])]"

definition blank_time_processor :: processor where
  "blank_time_processor = (init ''blank_time.csv'')\<lparr>data := Some blank_time_data\<rparr>"

definition blank_driver_data :: dataframe where
  "blank_driver_data =
     [(''Driver'', Object [Some ''Hamilton'', None, Some ''Verstappen'']),
      (''Time'', Numeric [Some 4.32, Some 4.40, Some 4.28])]"

definition blank_driver_processor :: processor where
  "blank_driver_processor = (init ''blank_driver.csv'')\<lparr>data := Some blank_driver_data\<rparr>"

definition no_time_data :: dataframe where
  "no_time_data =
     [(''Driver'', Object [Some ''Hamilton'', Some ''Verstappen'']),
      (''Time'', Numeric [Some 4.32, None])]"

definition no_time_processor :: processor where
  "no_time_processor = (init ''no_time.csv'')\<lparr>data := Some no_time_data\<rparr>"

definition only_blank_time_data :: dataframe where
  "only_blank_time_data = [(''Driver'', Object [Some ''Hamilton'']), (''Time'', Numeric [None])]"

definition only_blank_time_processor :: processor where
  "only_blank_time_processor
     = (init ''only_blank_time.csv'')\<lparr>data := Some only_blank_time_data\<rparr>"

definition only_blank_driver_data :: dataframe where
  "only_blank_driver_data = [(''Driver'', Object [None]), (''Time'', Numeric [Some 4.30])]"

definition only_blank_driver_processor :: processor where
  "only_blank_driver_processor
     = (init ''only_blank_driver.csv'')\<lparr>data := Some only_blank_driver_data\<rparr>"

section \<open>Properties of the stages\<close>

subsection \<open>Rounding is monotone\<close>

lemma rint_bounds: "\<lfloor>x\<rfloor> \<le> rint x \<and> rint x \<le> \<lfloor>x\<rfloor> + 1"
  by (simp add: rint_def)

lemma rint_mono:
  assumes "x \<le> y"
  shows "rint x \<le> rint y"
proof (cases "\<lfloor>x\<rfloor> = \<lfloor>y\<rfloor>")
  case True
  have "frac x \<le> frac y"
    using assms True by (simp add: frac_def)
  then show ?thesis
    using True by (auto simp: rint_def)
next
  case False
  have "\<lfloor>x\<rfloor> \<le> \<lfloor>y\<rfloor>"
    using assms by (rule floor_mono)
  with False have "\<lfloor>x\<rfloor> + 1 \<le> \<lfloor>y\<rfloor>"
    by simp
  then show ?thesis
    using rint_bounds [of x] rint_bounds [of y] by linarith
qed

lemma round3_mono: "x \<le> y \<Longrightarrow> round3 x \<le> round3 y"
  by (simp add: round3_def rint_mono divide_right_mono)

lemma na_last_round3_mono:
  "na_last a \<le> na_last b \<Longrightarrow> na_last (map_option round3 a) \<le> na_last (map_option round3 b)"
  by (cases a; cases b) (auto simp: round3_mono less_eq_prod_def dest: less_imp_le)

subsection \<open>Missing cells\<close>

lemma set_dropna: "set (dropna xs) = {x. Some x \<in> set xs}"
  by (induction xs rule: dropna.induct) auto

lemma length_dropna: "length (dropna xs) = length (filter (\<lambda>x. x \<noteq> None) xs)"
  by (induction xs rule: dropna.induct) auto

lemma dropna_Some: "dropna (map Some xs) = xs"
  by (induction xs) auto

lemma dropna_empty_iff: "dropna xs = [] \<longleftrightarrow> (\<forall>x\<in>set xs. x = None)"
  by (induction xs rule: dropna.induct) auto

subsection \<open>Sorting\<close>

text \<open>Insertion sort by key meets the contract.\<close>

lemma insertion_sort_meets_spec: "sort_values_spec insertion_sort"
  by (simp add: sort_values_spec_def insertion_sort_def)

lemma spec_mset: "sort_values_spec srt \<Longrightarrow> mset (srt f xs) = mset xs"
  by (simp add: sort_values_spec_def)

lemma spec_sorted: "sort_values_spec srt \<Longrightarrow> sorted (map (\<lambda>x. na_last (f x)) (srt f xs))"
  by (simp add: sort_values_spec_def)

lemma spec_set: "sort_values_spec srt \<Longrightarrow> set (srt f xs) = set xs"
  using spec_mset [of srt f xs] by (auto dest: mset_eq_setD)

lemma spec_length: "sort_values_spec srt \<Longrightarrow> length (srt f xs) = length xs"
  using spec_mset [of srt f xs] by (auto dest: mset_eq_length)

lemma filter_key_singleton:
  "distinct (map f zs) \<Longrightarrow> k \<in> set zs \<Longrightarrow> filter (\<lambda>x. f k = f x) zs = [k]"
proof (induction zs)
  case Nil
  then show ?case by simp
next
  case (Cons z zs)
  show ?case
  proof (cases "k = z")
    case True
    have "filter (\<lambda>x. f z = f x) zs = []"
      using Cons.prems(1) by (auto simp: filter_empty_conv)
    with True show ?thesis by simp
  next
    case False
    with Cons.prems have "k \<in> set zs" and "f k \<noteq> f z"
      by (auto intro: rev_image_eqI)
    with Cons show ?thesis by simp
  qed
qed

text \<open>Where the keys are pairwise different, the contract leaves one result.\<close>

lemma unique_sort:
  assumes "sort_values_spec srt" and "distinct (map (\<lambda>x. na_last (f x)) xs)"
  shows "srt f xs = insertion_sort f xs"
proof -
  let ?g = "\<lambda>x. na_last (f x)"
  have m: "mset (srt f xs) = mset xs" and s: "sorted (map ?g (srt f xs))"
    using assms(1) by (simp_all add: sort_values_spec_def)
  have "mset (map ?g (srt f xs)) = mset (map ?g xs)"
    using m by simp
  then have d: "distinct (map ?g (srt f xs))"
    using assms(2) mset_eq_imp_distinct_iff by blast
  have "filter (\<lambda>x. ?g k = ?g x) (srt f xs) = filter (\<lambda>x. ?g k = ?g x) xs"
    if "k \<in> set (srt f xs)" for k
  proof -
    from that m have "k \<in> set xs"
      using mset_eq_setD by blast
    then show ?thesis
      using that filter_key_singleton [OF d that] filter_key_singleton [OF assms(2)]
      by simp
  qed
  then show ?thesis
    unfolding insertion_sort_def using properties_for_sort_key [OF m _ s] by simp
qed

subsection \<open>Grouping\<close>

lemma distinct_group_keys: "distinct (group_keys ds)"
  by (simp add: group_keys_def)

lemma set_group_keys: "set (group_keys ds) = set (dropna ds)"
  by (simp add: group_keys_def)

lemma length_group_keys: "length (group_keys ds) = nunique ds"
  by (simp add: group_keys_def nunique_def)

lemma nunique_card: "nunique ds = card {d. Some d \<in> set ds}"
  by (simp add: nunique_def length_remdups_card_conv set_dropna)

lemma sum_indicator:
  "distinct ks \<Longrightarrow> (\<Sum>k\<leftarrow>ks. if a = k then 1 else 0) = (if a \<in> set ks then 1 else (0::nat))"
  by (induction ks) auto

lemma sum_const_zero: "(\<Sum>k\<leftarrow>ks. (0::nat)) = 0"
  by (induction ks) auto

text \<open>
  The groups' sizes add up to the number of rows that have a driver and satisfy \<open>P\<close>.
\<close>

lemma sum_group_sizes:
  assumes "distinct ks" and "set (dropna (map fst zs)) \<subseteq> set ks"
  shows "(\<Sum>k\<leftarrow>ks. length (filter (\<lambda>(d, t). d = Some k \<and> P t) zs))
    = length (filter (\<lambda>(d, t). d \<noteq> None \<and> P t) zs)"
  using assms(2)
proof (induction zs)
  case Nil
  then show ?case by (simp add: sum_const_zero)
next
  case (Cons z zs)
  obtain d t where z: "z = (d, t)" by (cases z)
  have sub: "set (dropna (map fst zs)) \<subseteq> set ks"
    using Cons.prems by (cases d) (auto simp: z)
  let ?n = "\<lambda>k. length (filter (\<lambda>(d, t). d = Some k \<and> P t) zs)"
  show ?case
  proof (cases "d \<noteq> None \<and> P t")
    case True
    then obtain a where a: "d = Some a" by auto
    with Cons.prems have mem: "a \<in> set ks"
      by (simp add: z)
    have "(\<Sum>k\<leftarrow>ks. length (filter (\<lambda>(d, t). d = Some k \<and> P t) (z # zs)))
        = (\<Sum>k\<leftarrow>ks. (if a = k then 1 else 0) + ?n k)"
      using True by (intro arg_cong [where f = sum_list]) (simp add: z a)
    also have "\<dots> = (\<Sum>k\<leftarrow>ks. if a = k then 1 else 0) + (\<Sum>k\<leftarrow>ks. ?n k)"
      by (simp add: sum_list_addf)
    also have "\<dots> = 1 + length (filter (\<lambda>(d, t). d \<noteq> None \<and> P t) zs)"
      using Cons.IH [OF sub] assms(1) mem by (simp add: sum_indicator)
    finally show ?thesis
      using True by (simp add: z)
  next
    case False
    have "(\<Sum>k\<leftarrow>ks. length (filter (\<lambda>(d, t). d = Some k \<and> P t) (z # zs))) = (\<Sum>k\<leftarrow>ks. ?n k)"
      using False by (intro arg_cong [where f = sum_list]) (auto simp: z)
    then show ?thesis
      using Cons.IH [OF sub] False by (simp add: z)
  qed
qed

lemma length_group_times:
  "length (group_times ds ts k) = length (filter (\<lambda>(d, t). d = Some k \<and> t \<noteq> None) (zip ds ts))"
proof -
  have "length (dropna (map snd zs)) = length (filter (\<lambda>(d, t). t \<noteq> None) zs)"
    for zs :: "(cell option \<times> real option) list"
    by (induction zs) (auto simp: length_dropna)
  then show ?thesis
    by (simp add: group_times_def case_prod_unfold conj_commute)
qed

subsection \<open>Frames\<close>

lemma map_of_col_len:
  "well_formed df \<Longrightarrow> map_of df name = Some c \<Longrightarrow> col_len c = df_len df"
  by (auto simp: well_formed_def list_all_iff dest!: map_of_SomeD)

lemma length_cells: "length (cells c) = col_len c"
  by (cases c) simp_all

lemma valid_columns:
  assumes "validate_data df = Inr True"
  obtains dc ts where "map_of df ''Driver'' = Some dc" and "map_of df ''Time'' = Some (Numeric ts)"
    and "0 < df_len df"
proof -
  from assms have c: "''Driver'' \<in> set (df_columns df)" "''Time'' \<in> set (df_columns df)"
    and e: "\<not> df_empty df"
    by (auto simp: validate_data_def required_columns_def split: if_splits)
  from c(1) obtain dc where dc: "map_of df ''Driver'' = Some dc"
    by (metis df_columns_def map_of_eq_None_iff not_None_eq set_map)
  from assms c e obtain ts where ts: "map_of df ''Time'' = Some (Numeric ts)"
    by (auto simp: validate_data_def required_columns_def
        split: if_splits option.splits column.splits)
  from e have "0 < df_len df"
    by (simp add: df_empty_def)
  with dc ts show ?thesis
    using that by blast
qed

lemma driver_column_eq: "map_of df ''Driver'' = Some dc \<Longrightarrow> driver_column df = cells dc"
  by (simp add: driver_column_def)

lemma time_column_eq: "map_of df ''Time'' = Some (Numeric ts) \<Longrightarrow> time_column df = ts"
  by (simp add: time_column_def)

subsection \<open>Ranks and rounding\<close>

lemma length_add_rank: "length (add_rank xs) = length xs"
proof -
  have "length [1 ..< length xs + 1] = length xs"
    by (simp only: length_upt add_diff_cancel_right')
  then show ?thesis
    by (simp only: add_rank_def length_map length_zip min.idem)
qed

lemma rank_add_rank: "map rank (add_rank xs) = [1 ..< length xs + 1]"
proof -
  have "map rank (add_rank xs) = map snd (zip xs [1 ..< length xs + 1])"
    by (simp add: add_rank_def with_rank_def case_prod_unfold)
  then show ?thesis by simp
qed

lemma fields_add_rank:
  "map Driver (add_rank xs) = map Driver xs"
  "map average_time (add_rank xs) = map average_time xs"
  "map lap_count (add_rank xs) = map lap_count xs"
proof -
  have *: "map (f \<circ> fst) (zip xs [1 ..< length xs + 1]) = map f xs" for f :: "agg_stats \<Rightarrow> 'b"
    by (metis map_fst_zip length_upt add_diff_cancel_right' map_map)
  show "map Driver (add_rank xs) = map Driver xs"
    using * [of Driver] by (simp add: add_rank_def with_rank_def case_prod_unfold comp_def)
  show "map average_time (add_rank xs) = map average_time xs"
    using * [of average_time] by (simp add: add_rank_def with_rank_def case_prod_unfold comp_def)
  show "map lap_count (add_rank xs) = map lap_count xs"
    using * [of lap_count] by (simp add: add_rank_def with_rank_def case_prod_unfold comp_def)
qed

lemma fields_round_times:
  "map Driver (map round_times rs) = map Driver rs"
  "map average_time (map round_times rs) = map (map_option round3) (map average_time rs)"
  "map lap_count (map round_times rs) = map lap_count rs"
  "map rank (map round_times rs) = map rank rs"
  by (simp_all add: round_times_def comp_def)

lemma length_sort_rank_round:
  "sort_values_spec srt \<Longrightarrow> length (sort_rank_round srt xs) = length xs"
  by (simp add: sort_rank_round_def length_add_rank spec_length)

lemma rank_sort_rank_round:
  assumes "sort_values_spec srt"
  shows "map rank (sort_rank_round srt xs) = [1 ..< length xs + 1]"
  by (simp only: sort_rank_round_def fields_round_times rank_add_rank spec_length [OF assms])


lemma average_sort_rank_round:
  "map average_time (sort_rank_round srt xs)
     = map (map_option round3) (map average_time (srt average_time xs))"
  by (simp only: sort_rank_round_def fields_round_times fields_add_rank)

lemma lap_count_sort_rank_round:
  "map lap_count (sort_rank_round srt xs) = map lap_count (srt average_time xs)"
  by (simp only: sort_rank_round_def fields_round_times fields_add_rank)

subsection \<open>transform on a validated frame\<close>

text \<open>A validated frame with at least one driver is transformed without an error.\<close>

lemma transform_valid:
  assumes "sort_values_spec srt" and "well_formed df" and "validate_data df = Inr True"
    and "data p = Some df" and "0 < nunique (driver_column df)"
  obtains ds ts grouped res where "driver_column df = ds" and "time_column df = ts"
    and "length ds = length ts"
    and "grouped = map (agg avg ds ts) (group_keys ds)"
    and "groupby_agg avg df = Inr grouped"
    and "res = sort_rank_round srt grouped"
    and "transform srt avg p = Inr (res, p\<lparr>results := Some res\<rparr>)"
proof -
  from assms(3) obtain dc ts where dc: "map_of df ''Driver'' = Some dc"
    and ts: "map_of df ''Time'' = Some (Numeric ts)"
    by (rule valid_columns)
  define grouped where "grouped = map (agg avg (cells dc) ts) (group_keys (cells dc))"
  define res where "res = sort_rank_round srt grouped"
  have l: "length (cells dc) = length ts"
    using map_of_col_len [OF assms(2) dc] map_of_col_len [OF assms(2) ts]
    by (simp add: length_cells)
  have g: "groupby_agg avg df = Inr grouped"
    using dc ts by (simp add: groupby_agg_def grouped_def)
  have "length res = nunique (driver_column df)"
    by (simp add: res_def grouped_def length_sort_rank_round [OF assms(1)] length_group_keys
        driver_column_eq [OF dc])
  with assms(5) have "res \<noteq> []"
    by auto
  then have "transform srt avg p = Inr (res, p\<lparr>results := Some res\<rparr>)"
    using g assms(4) by (simp add: transform_def res_def Let_def)
  with l g show ?thesis
    using that [of "cells dc" ts grouped res]
    by (simp add: driver_column_eq [OF dc] time_column_eq [OF ts] grouped_def res_def)
qed


text \<open>A frame without missing drivers that passes validation has a driver.\<close>

lemma complete_has_driver:
  assumes "well_formed df" and "validate_data df = Inr True"
    and "None \<notin> set (driver_column df)"
  shows "0 < nunique (driver_column df)"
proof -
  from assms(2) obtain dc where dc: "map_of df ''Driver'' = Some dc" and pos: "0 < df_len df"
    by (rule valid_columns)
  have "length (driver_column df) = df_len df"
    using map_of_col_len [OF assms(1) dc] by (simp add: driver_column_eq [OF dc] length_cells)
  with pos have "driver_column df \<noteq> []"
    by auto
  then obtain d where "d \<in> set (driver_column df)"
    by (cases "driver_column df") auto
  with assms(3) have "dropna (driver_column df) \<noteq> []"
    by (cases d) (auto simp: dropna_empty_iff)
  then show ?thesis
    by (simp add: nunique_def)
qed

subsection \<open>Counts, sums and order of the aggregated rows\<close>

lemma sum_lap_count_grouped:
  "sum_list (map lap_count (map (agg avg ds ts) (group_keys ds)))
     = length (filter (\<lambda>(d, t). d \<noteq> None \<and> t \<noteq> None) (zip ds ts))"
proof -
  have "set (dropna (map fst (zip ds ts))) \<subseteq> set (group_keys ds)"
    by (auto simp: set_group_keys set_dropna dest: set_zip_leftD)
  then have total: "(\<Sum>k\<leftarrow>group_keys ds. length (filter (\<lambda>(d, t). d = Some k \<and> t \<noteq> None) (zip ds ts)))
      = length (filter (\<lambda>(d, t). d \<noteq> None \<and> t \<noteq> None) (zip ds ts))"
    using distinct_group_keys by (rule sum_group_sizes [rotated])
  have "lap_count \<circ> agg avg ds ts
      = (\<lambda>k. length (filter (\<lambda>(d, t). d = Some k \<and> t \<noteq> None) (zip ds ts)))"
    by (rule ext) (simp add: agg_def length_group_times)
  then show ?thesis
    using total by (simp only: map_map)
qed

lemma sum_list_sorted_rows:
  assumes "sort_values_spec srt"
  shows "sum_list (map g (srt f xs)) = sum_list (map (g :: agg_stats \<Rightarrow> nat) xs)"
proof -
  have "mset (map g (srt f xs)) = mset (map g xs)"
    using spec_mset [OF assms, of f xs] by simp
  then show ?thesis
    by (metis sum_mset_sum_list)
qed

lemma sorted_map_mono:
  "sorted (map na_last ys) \<Longrightarrow> sorted (map na_last (map (map_option round3) ys))"
  by (induction ys) (auto intro: na_last_round3_mono)

lemma sorted_average:
  assumes "sort_values_spec srt"
  shows "sorted (map na_last (map average_time (sort_rank_round srt xs)))"
proof -
  have "sorted (map na_last (map average_time (srt average_time xs)))"
    using spec_sorted [OF assms, of average_time xs] by (simp add: comp_def)
  then show ?thesis
    unfolding average_sort_rank_round by (rule sorted_map_mono)
qed

text \<open>
  A list of times sorted with \<open>NaN\<close> last: numbers that never decrease, then the \<open>NaN\<close>s.
\<close>

lemma sorted_na_last_split:
  "sorted (map na_last ys) \<Longrightarrow> \<exists>xs n. ys = map Some xs @ replicate n None \<and> sorted xs"
proof (induction ys)
  case Nil
  then show ?case by simp
next
  case (Cons y ys)
  then obtain xs n where ys: "ys = map Some xs @ replicate n None" and s: "sorted xs"
    by auto
  show ?case
  proof (cases y)
    case None
    have "xs = []"
    proof (rule ccontr)
      assume "xs \<noteq> []"
      then obtain x xs' where "xs = x # xs'" by (cases xs) auto
      with ys have "Some x \<in> set ys"
        by simp
      moreover have "\<forall>z\<in>set ys. na_last y \<le> na_last z"
        using Cons.prems by simp
      ultimately have "na_last None \<le> na_last (Some x)"
        using None by blast
      then show False
        by simp
    qed
    with ys None have "y # ys = map Some [] @ replicate (Suc n) None"
      by simp
    then show ?thesis
      by (metis sorted_simps(1))
  next
    case (Some v)
    have all: "\<forall>z\<in>set ys. na_last y \<le> na_last z"
      using Cons.prems by simp
    have "v \<le> x" if "x \<in> set xs" for x
    proof -
      from that ys have "Some x \<in> set ys"
        by simp
      with all Some have "na_last (Some v) \<le> na_last (Some x)"
        by blast
      then show ?thesis
        by simp
    qed
    then have "\<forall>x\<in>set xs. v \<le> x"
      by blast
    with s ys Some have "y # ys = map Some (v # xs) @ replicate n None \<and> sorted (v # xs)"
      by simp
    then show ?thesis
      by blast
  qed
qed

lemma sorted_hd_least: "sorted xs \<Longrightarrow> xs \<noteq> [] \<Longrightarrow> hd xs = Min (set xs)"
  by (cases xs) (auto intro!: Min_eqI [symmetric])

subsection \<open>head\<close>



subsection \<open>The example frames\<close>

lemmas frame_defs = test_data_def close_data_def tied_data_def blank_time_data_def
  blank_driver_data_def no_time_data_def only_blank_time_data_def only_blank_driver_data_def

lemmas processor_defs = test_processor_def close_processor_def tied_processor_def
  blank_time_processor_def blank_driver_processor_def no_time_processor_def
  only_blank_time_processor_def only_blank_driver_processor_def init_def

lemmas stage_defs = sort_rank_round_def insertion_sort_def add_rank_def with_rank_def
  round_times_def round3_def rint_def frac_def upt_rec Let_def eval_nat_numeral

lemma frames_well_formed:
  "well_formed test_data" "well_formed close_data" "well_formed tied_data"
  "well_formed blank_time_data" "well_formed blank_driver_data" "well_formed no_time_data"
  "well_formed only_blank_time_data" "well_formed only_blank_driver_data"
  by (simp_all add: well_formed_def frame_defs df_columns_def)

lemma frames_valid:
  "validate_data test_data = Inr True" "validate_data close_data = Inr True"
  "validate_data tied_data = Inr True" "validate_data blank_time_data = Inr True"
  "validate_data blank_driver_data = Inr True" "validate_data no_time_data = Inr True"
  "validate_data only_blank_time_data = Inr True"
  "validate_data only_blank_driver_data = Inr True"
  by (simp_all add: validate_data_def frame_defs required_columns_def df_columns_def
      df_empty_def)

lemma frames_loaded:
  "data test_processor = Some test_data" "data close_processor = Some close_data"
  "data tied_processor = Some tied_data" "data blank_time_processor = Some blank_time_data"
  "data blank_driver_processor = Some blank_driver_data"
  "data no_time_processor = Some no_time_data"
  "data only_blank_time_processor = Some only_blank_time_data"
  "data only_blank_driver_processor = Some only_blank_driver_data"
  by (simp_all add: processor_defs)

lemma frames_nunique:
  "nunique (driver_column test_data) = 3" "nunique (driver_column close_data) = 2"
  "nunique (driver_column tied_data) = 2" "nunique (driver_column blank_time_data) = 2"
  "nunique (driver_column blank_driver_data) = 2" "nunique (driver_column no_time_data) = 2"
  "nunique (driver_column only_blank_time_data) = 1"
  "nunique (driver_column only_blank_driver_data) = 0"
  by (simp_all add: nunique_def driver_column_def frame_defs)

lemma test_data_grouped:
  "groupby_agg mean test_data = Inr
     [\<lparr>Driver = Str ''Hamilton'', average_time = Some (263 / 60), fastest_time = Some 4.32,
       lap_count = 3\<rparr>,
      \<lparr>Driver = Str ''Leclerc'', average_time = Some 4.49, fastest_time = Some 4.48,
       lap_count = 2\<rparr>,
      \<lparr>Driver = Str ''Verstappen'', average_time = Some (322 / 75), fastest_time = Some 4.28,
       lap_count = 3\<rparr>]"
  by (simp add: groupby_agg_def test_data_def group_keys_def agg_def group_times_def skipna_def
      mean_def)

lemma test_data_transformed:
  "transform insertion_sort mean test_processor =
     Inr (test_results, test_processor\<lparr>results := Some test_results\<rparr>)"
  by (simp add: transform_def test_data_grouped test_results_def processor_defs stage_defs)

lemma close_data_grouped:
  "groupby_agg mean close_data = Inr
     [\<lparr>Driver = Str ''Albon'', average_time = Some 1.0004, fastest_time = Some 1.0004,
       lap_count = 1\<rparr>,
      \<lparr>Driver = Str ''Bottas'', average_time = Some 1.0001, fastest_time = Some 1.0001,
       lap_count = 1\<rparr>]"
  by (simp add: groupby_agg_def close_data_def group_keys_def agg_def group_times_def skipna_def
      mean_def)


lemma tied_data_grouped:
  "groupby_agg mean tied_data = Inr
     [\<lparr>Driver = Str ''Albon'', average_time = Some 1.5, fastest_time = Some 1.5, lap_count = 1\<rparr>,
      \<lparr>Driver = Str ''Bottas'', average_time = Some 1.5, fastest_time = Some 1.5, lap_count = 1\<rparr>]"
  by (simp add: groupby_agg_def tied_data_def group_keys_def agg_def group_times_def skipna_def
      mean_def)

lemma blank_time_data_grouped:
  "groupby_agg mean blank_time_data = Inr
     [\<lparr>Driver = Str ''Hamilton'', average_time = Some 4.32, fastest_time = Some 4.32,
       lap_count = 1\<rparr>,
      \<lparr>Driver = Str ''Verstappen'', average_time = Some 4.28, fastest_time = Some 4.28,
       lap_count = 1\<rparr>]"
  by (simp add: groupby_agg_def blank_time_data_def group_keys_def agg_def group_times_def
      skipna_def mean_def)

lemma blank_time_data_transformed:
  "transform insertion_sort mean blank_time_processor = Inr
     ([\<lparr>Driver = Str ''Verstappen'', average_time = Some 4.28, fastest_time = Some 4.28,
        lap_count = 1, rank = 1\<rparr>,
       \<lparr>Driver = Str ''Hamilton'', average_time = Some 4.32, fastest_time = Some 4.32,
        lap_count = 1, rank = 2\<rparr>],
      blank_time_processor\<lparr>results := Some
       [\<lparr>Driver = Str ''Verstappen'', average_time = Some 4.28, fastest_time = Some 4.28,
         lap_count = 1, rank = 1\<rparr>,
        \<lparr>Driver = Str ''Hamilton'', average_time = Some 4.32, fastest_time = Some 4.32,
         lap_count = 1, rank = 2\<rparr>]\<rparr>)"
  by (simp add: transform_def blank_time_data_grouped processor_defs stage_defs)

lemma blank_driver_data_grouped:
  "groupby_agg mean blank_driver_data = Inr
     [\<lparr>Driver = Str ''Hamilton'', average_time = Some 4.32, fastest_time = Some 4.32,
       lap_count = 1\<rparr>,
      \<lparr>Driver = Str ''Verstappen'', average_time = Some 4.28, fastest_time = Some 4.28,
       lap_count = 1\<rparr>]"
  by (simp add: groupby_agg_def blank_driver_data_def group_keys_def agg_def group_times_def
      skipna_def mean_def)

lemma blank_driver_data_transformed:
  "transform insertion_sort mean blank_driver_processor = Inr
     ([\<lparr>Driver = Str ''Verstappen'', average_time = Some 4.28, fastest_time = Some 4.28,
        lap_count = 1, rank = 1\<rparr>,
       \<lparr>Driver = Str ''Hamilton'', average_time = Some 4.32, fastest_time = Some 4.32,
        lap_count = 1, rank = 2\<rparr>],
      blank_driver_processor\<lparr>results := Some
       [\<lparr>Driver = Str ''Verstappen'', average_time = Some 4.28, fastest_time = Some 4.28,
         lap_count = 1, rank = 1\<rparr>,
        \<lparr>Driver = Str ''Hamilton'', average_time = Some 4.32, fastest_time = Some 4.32,
         lap_count = 1, rank = 2\<rparr>]\<rparr>)"
  by (simp add: transform_def blank_driver_data_grouped processor_defs stage_defs)

lemma no_time_data_grouped:
  "groupby_agg mean no_time_data = Inr
     [\<lparr>Driver = Str ''Hamilton'', average_time = Some 4.32, fastest_time = Some 4.32,
       lap_count = 1\<rparr>,
      \<lparr>Driver = Str ''Verstappen'', average_time = None, fastest_time = None, lap_count = 0\<rparr>]"
  by (simp add: groupby_agg_def no_time_data_def group_keys_def agg_def group_times_def
      skipna_def mean_def)

lemma no_time_data_transformed:
  "transform insertion_sort mean no_time_processor = Inr
     ([\<lparr>Driver = Str ''Hamilton'', average_time = Some 4.32, fastest_time = Some 4.32,
        lap_count = 1, rank = 1\<rparr>,
       \<lparr>Driver = Str ''Verstappen'', average_time = None, fastest_time = None,
        lap_count = 0, rank = 2\<rparr>],
      no_time_processor\<lparr>results := Some
       [\<lparr>Driver = Str ''Hamilton'', average_time = Some 4.32, fastest_time = Some 4.32,
         lap_count = 1, rank = 1\<rparr>,
        \<lparr>Driver = Str ''Verstappen'', average_time = None, fastest_time = None,
         lap_count = 0, rank = 2\<rparr>]\<rparr>)"
  by (simp add: transform_def no_time_data_grouped processor_defs stage_defs)


lemma only_blank_driver_data_transformed:
  "transform insertion_sort mean only_blank_driver_processor = Inl IndexError"
  by (simp add: transform_def groupby_agg_def only_blank_driver_data_def group_keys_def
      processor_defs stage_defs)

subsection \<open>Frames whose means are pairwise different\<close>

lemma transform_unique:
  assumes "sort_values_spec srt" and "data p = Some df" and "groupby_agg avg df = Inr grouped"
    and "distinct (map (\<lambda>x. na_last (average_time x)) grouped)"
  shows "transform srt avg p = transform insertion_sort avg p"
  using assms(2,3) unique_sort [OF assms(1,4)]
  by (simp add: transform_def sort_rank_round_def)

lemma close_data_any_sort:
  "sort_values_spec srt \<Longrightarrow>
     transform srt mean close_processor = transform insertion_sort mean close_processor"
  by (rule transform_unique [OF _ frames_loaded(2) close_data_grouped]) simp_all

subsection \<open>The order of rows with equal keys\<close>

lemma na_first_reverses: "na_first a \<le> na_first b \<Longrightarrow> na_last b \<le> na_last a"
  by (cases a; cases b) auto

lemma reversing_sort_meets_spec: "sort_values_spec reversing_sort"
proof -
  have "sorted (map (\<lambda>x. na_last (f x)) (rev (sort_key (\<lambda>x. na_first (f x)) xs)))"
    for f :: "agg_stats \<Rightarrow> real option" and xs
  proof -
    have "sorted (map (\<lambda>x. na_first (f x)) (sort_key (\<lambda>x. na_first (f x)) xs))"
      by simp
    then have "sorted_wrt (\<lambda>a b. na_first (f a) \<le> na_first (f b)) (sort_key (\<lambda>x. na_first (f x)) xs)"
      by (simp add: sorted_map)
    then have "sorted_wrt (\<lambda>a b. na_last (f b) \<le> na_last (f a)) (sort_key (\<lambda>x. na_first (f x)) xs)"
      by (rule sorted_wrt_mono_rel [rotated]) (rule na_first_reverses)
    then show ?thesis
      by (simp add: sorted_map sorted_wrt_rev)
  qed
  then show ?thesis
    by (simp add: sort_values_spec_def reversing_sort_def)
qed

text \<open>
  Two drivers with the same mean, Albon before Bottas in the \<open>groupby\<close> output: one sort
  that meets the contract ranks Albon first, another one Bottas.
\<close>

lemma tie_order_not_fixed:
  "map Driver (fst (projr (transform insertion_sort mean tied_processor)))
     = [Str ''Albon'', Str ''Bottas'']"
  "map Driver (fst (projr (transform reversing_sort mean tied_processor)))
     = [Str ''Bottas'', Str ''Albon'']"
  by (simp_all add: transform_def tied_data_grouped processor_defs stage_defs
      reversing_sort_def)

subsection \<open>Drivers in the order of the rows\<close>


subsection \<open>Complete rows and groups with a time\<close>

lemma valid_lengths:
  assumes "well_formed df" and "validate_data df = Inr True"
  obtains dc where "map_of df ''Driver'' = Some dc"
    and "length (driver_column df) = df_len df" and "length (time_column df) = df_len df"
proof -
  from assms(2) obtain dc ts where dc: "map_of df ''Driver'' = Some dc"
    and ts: "map_of df ''Time'' = Some (Numeric ts)"
    by (rule valid_columns)
  have "length (driver_column df) = df_len df"
    using map_of_col_len [OF assms(1) dc] by (simp add: driver_column_eq [OF dc] length_cells)
  moreover have "length (time_column df) = df_len df"
    using map_of_col_len [OF assms(1) ts] by (simp add: time_column_eq [OF ts])
  ultimately show ?thesis
    using that dc by blast
qed

lemma length_filter_fst:
  "length ds = length ts \<Longrightarrow>
     length (filter (\<lambda>(d, t). P d) (zip ds ts)) = length (filter P ds)"
proof -
  assume l: "length ds = length ts"
  have "length (filter (\<lambda>(d, t). P d) (zip ds ts)) = length (filter P (map fst (zip ds ts)))"
    by (simp add: filter_map comp_def case_prod_unfold)
  then show ?thesis
    using l by simp
qed

lemma complete_rows_all:
  assumes "None \<notin> set ds" and "None \<notin> set ts"
  shows "filter (\<lambda>(d, t). d \<noteq> None \<and> t \<noteq> None) (zip ds ts) = zip ds ts"
proof -
  have "d \<noteq> None \<and> t \<noteq> None" if "(d, t) \<in> set (zip ds ts)" for d t
    using that assms by (metis set_zip_leftD set_zip_rightD)
  then show ?thesis
    by (auto simp: filter_id_conv simp del: not_None_eq)
qed

lemma group_has_time:
  assumes "(Some k, Some t) \<in> set (zip ds ts)"
  shows "group_times ds ts k \<noteq> []"
proof -
  have "filter (\<lambda>(d, t). d = Some k \<and> t \<noteq> None) (zip ds ts) \<noteq> []"
    using assms by (auto simp: filter_empty_conv)
  then have "length (group_times ds ts k) \<noteq> 0"
    by (simp only: length_group_times length_0_conv not_False_eq_True)
  then show ?thesis
    by auto
qed

lemma group_key_row:
  assumes "k \<in> set (group_keys ds)" and "length ds = length ts"
  obtains t where "(Some k, t) \<in> set (zip ds ts)"
proof -
  from assms(1) have "Some k \<in> set ds"
    by (simp add: set_group_keys set_dropna)
  then obtain i where "i < length ds" and "ds ! i = Some k"
    by (auto simp: in_set_conv_nth)
  with assms(2) have "zip ds ts ! i = (Some k, ts ! i)" and "i < length (zip ds ts)"
    by simp_all
  then have "(Some k, ts ! i) \<in> set (zip ds ts)"
    by (metis nth_mem)
  then show ?thesis
    using that by blast
qed

lemma no_blank_time_average:
  assumes "None \<notin> set ts" and "length ds = length ts"
    and "g \<in> set (map (agg avg ds ts) (group_keys ds))"
  shows "average_time g \<noteq> None"
proof -
  from assms(3) obtain k where k: "k \<in> set (group_keys ds)" and g: "g = agg avg ds ts k"
    by auto
  from k assms(2) obtain t where row: "(Some k, t) \<in> set (zip ds ts)"
    by (rule group_key_row)
  then have "t \<in> set ts"
    by (rule set_zip_rightD)
  with assms(1) obtain v where "t = Some v"
    by (cases t) auto
  with row have "group_times ds ts k \<noteq> []"
    using group_has_time [of k v ds ts] by simp
  then show ?thesis
    by (simp add: g agg_def skipna_def)
qed


lemma sorted_float_le: "sorted xs \<Longrightarrow> sorted_wrt float_le (map Some xs)"
  by (simp add: sorted_wrt_map)


text \<open>The averages of the result: numbers that never decrease, then the \<open>NaN\<close>s.\<close>

lemma averages_split:
  assumes "sort_values_spec srt"
  obtains xs n where
    "map average_time (sort_rank_round srt grouped) = map Some xs @ replicate n None"
    and "sorted xs"
  using sorted_na_last_split [OF sorted_average [OF assms, of grouped]] by blast

lemma no_none_map_option: "None \<notin> set ys \<Longrightarrow> None \<notin> set (map (map_option f) ys)"
  by (induction ys) auto

lemma averages_some:
  assumes "sort_values_spec srt" and "\<forall>g\<in>set grouped. average_time g \<noteq> None"
  shows "None \<notin> set (map average_time (sort_rank_round srt grouped))"
proof -
  have "average_time x \<noteq> None" if "x \<in> set (srt average_time grouped)" for x
    using that assms(2) by (simp add: spec_set [OF assms(1)])
  then have "None \<notin> set (map average_time (srt average_time grouped))"
    by (metis (no_types, lifting) imageE list.set_map)
  then have "None \<notin> set (map (map_option round3) (map average_time (srt average_time grouped)))"
    by (rule no_none_map_option)
  then show ?thesis
    unfolding average_sort_rank_round .
qed

section \<open>The claims\<close>

text \<open>
  A valid input is a well-formed frame that \<open>validate_data\<close> accepts and that \<open>extract\<close> has
  stored in \<open>self.data\<close>; it may have blank cells. \<open>K\<close>, the number of distinct drivers, is
  \<open>nunique (driver_column df)\<close>. The rows of the result stand in the order of their ranks.
\<close>

text \<open>
  Claim C1. On the eight rows of the unit tests, \<open>extract\<close>, \<open>transform\<close> and \<open>load_json\<close>
  give: Verstappen with average 4.293, fastest time 4.28 and rank 1; Hamilton with average
  4.383 and rank 2; Leclerc with average 4.49 and rank 3; \<open>total_laps_analyzed = 8\<close> and
  \<open>total_drivers_analyzed = 3\<close>. The means are the exact ones. The three means differ, so
  every sort that meets the contract gives this result.
\<close>

theorem test_scenario:
  assumes "sort_values_spec srt"
  shows "extract_csv (Inr test_data) (init ''test_lap_times.csv'') = Inr (test_data, test_processor) \<and>
    transform srt mean test_processor
      = Inr (test_results, test_processor\<lparr>results := Some test_results\<rparr>) \<and>
    load_json 3 (test_processor\<lparr>results := Some test_results\<rparr>)
      = Inr \<lparr>top_drivers = test_results, total_drivers_analyzed = 3, total_laps_analyzed = 8\<rparr> \<and>
    map Driver test_results = [Str ''Verstappen'', Str ''Hamilton'', Str ''Leclerc''] \<and>
    map average_time test_results = [Some 4.293, Some 4.383, Some 4.49] \<and>
    map fastest_time test_results = [Some 4.28, Some 4.32, Some 4.48] \<and>
    map rank test_results = [1, 2, 3]"
proof -
  have "extract_csv (Inr test_data) (init ''test_lap_times.csv'') = Inr (test_data, test_processor)"
    by (simp add: extract_csv_def frames_valid test_processor_def)
  moreover have "transform srt mean test_processor = transform insertion_sort mean test_processor"
    using assms frames_loaded(1) test_data_grouped by (rule transform_unique) simp
  moreover have "load_json 3 (test_processor\<lparr>results := Some test_results\<rparr>)
      = Inr \<lparr>top_drivers = test_results, total_drivers_analyzed = 3, total_laps_analyzed = 8\<rparr>"
    by (simp add: load_json_def get_top_n_def head_def test_processor_def test_data_def
        test_results_def dropna_Some comp_def)
  ultimately show ?thesis
    by (simp add: test_data_transformed) (simp add: test_results_def)
qed

text \<open>The scenario with insertion sort as the sort.\<close>

theorem test_scenario_witness:
  "sort_values_spec insertion_sort \<and>
   transform insertion_sort mean test_processor
     = Inr (test_results, test_processor\<lparr>results := Some test_results\<rparr>) \<and>
   load_json 3 (test_processor\<lparr>results := Some test_results\<rparr>)
     = Inr \<lparr>top_drivers = test_results, total_drivers_analyzed = 3, total_laps_analyzed = 8\<rparr>"
  using test_scenario [OF insertion_sort_meets_spec] by (simp add: insertion_sort_meets_spec)




text \<open>
  Claim C3, as stated: \<open>validate_data\<close> fails with SchemaError when \<open>Driver\<close> or \<open>Time\<close> is
  missing, with EmptyInputError when the table has no rows, with TypeError when the \<open>Time\<close>
  column is not numeric and with RangeError when a time is negative. The program has no
  such four kinds of error: it raises \<open>ValueError\<close> in all four cases, and the unit tests
  expect \<open>ValueError\<close>. On a frame whose times are text the error is a \<open>ValueError\<close>, not a
  \<open>TypeError\<close>.
\<close>

theorem value_error_counterexample:
  "validate_data text_time_data = Inl (ValueError ''Time column must contain numeric values'') \<and>
   validate_data text_time_data \<noteq> Inl TypeError"
  by (simp add: validate_data_def text_time_data_def required_columns_def df_columns_def
      df_empty_def)

text \<open>
  Claim C3, amended: \<open>validate_data\<close> fails with \<open>ValueError\<close> and the message
  \<open>Missing required columns\<close> when \<open>Driver\<close> or \<open>Time\<close> is missing, with \<open>ValueError\<close> and
  \<open>Input file is empty\<close> when the table has no rows, with \<open>ValueError\<close> and
  \<open>Time column must contain numeric values\<close> when the \<open>Time\<close> column is not numeric, and with
  \<open>ValueError\<close> and \<open>Time values cannot be negative\<close> when a time is negative; the rules are
  tried in this order and the first one violated decides; a table that meets all four passes
  with \<open>True\<close>. The times looked at are those that are there: a blank time breaks no rule.
\<close>

theorem validate_data_outcomes:
  "(''Driver'' \<notin> set (df_columns df) \<or> ''Time'' \<notin> set (df_columns df) \<longrightarrow>
      validate_data df
        = Inl (ValueError ''Missing required columns. Expected: ['Driver', 'Time']'')) \<and>
   (''Driver'' \<in> set (df_columns df) \<and> ''Time'' \<in> set (df_columns df) \<and> df_len df = 0 \<longrightarrow>
      validate_data df = Inl (ValueError ''Input file is empty'')) \<and>
   (''Driver'' \<in> set (df_columns df) \<and> ''Time'' \<in> set (df_columns df) \<and> 0 < df_len df \<and>
    map_of df ''Time'' = Some (Object ss) \<longrightarrow>
      validate_data df = Inl (ValueError ''Time column must contain numeric values'')) \<and>
   (''Driver'' \<in> set (df_columns df) \<and> ''Time'' \<in> set (df_columns df) \<and> 0 < df_len df \<and>
    map_of df ''Time'' = Some (Numeric ts) \<and> (\<exists>t. Some t \<in> set ts \<and> t < 0) \<longrightarrow>
      validate_data df = Inl (ValueError ''Time values cannot be negative'')) \<and>
   (''Driver'' \<in> set (df_columns df) \<and> ''Time'' \<in> set (df_columns df) \<and> 0 < df_len df \<and>
    map_of df ''Time'' = Some (Numeric ts) \<and> (\<forall>t. Some t \<in> set ts \<longrightarrow> 0 \<le> t) \<longrightarrow>
      validate_data df = Inr True)"
proof -
  have empty: "df_empty df \<longleftrightarrow> df_len df = 0" if "''Time'' \<in> set (df_columns df)"
    using that by (auto simp: df_empty_def)
  have neg: "list_ex (\<lambda>t. t < 0) (dropna ts) \<longleftrightarrow> (\<exists>t. Some t \<in> set ts \<and> t < 0)"
    by (auto simp: list_ex_iff set_dropna)
  have nonneg: "\<not> list_ex (\<lambda>t. t < 0) (dropna ts)" if "\<forall>t. Some t \<in> set ts \<longrightarrow> 0 \<le> t"
    using that by (auto simp: neg not_less)
  show ?thesis
  proof (intro conjI impI)
    assume "''Driver'' \<notin> set (df_columns df) \<or> ''Time'' \<notin> set (df_columns df)"
    then show "validate_data df
        = Inl (ValueError ''Missing required columns. Expected: ['Driver', 'Time']'')"
      by (auto simp: validate_data_def required_columns_def)
  next
    assume "''Driver'' \<in> set (df_columns df) \<and> ''Time'' \<in> set (df_columns df) \<and> df_len df = 0"
    then show "validate_data df = Inl (ValueError ''Input file is empty'')"
      by (simp add: validate_data_def required_columns_def empty)
  next
    assume "''Driver'' \<in> set (df_columns df) \<and> ''Time'' \<in> set (df_columns df) \<and> 0 < df_len df \<and>
      map_of df ''Time'' = Some (Object ss)"
    then show "validate_data df = Inl (ValueError ''Time column must contain numeric values'')"
      by (simp add: validate_data_def required_columns_def empty)
  next
    assume "''Driver'' \<in> set (df_columns df) \<and> ''Time'' \<in> set (df_columns df) \<and> 0 < df_len df \<and>
      map_of df ''Time'' = Some (Numeric ts) \<and> (\<exists>t. Some t \<in> set ts \<and> t < 0)"
    then show "validate_data df = Inl (ValueError ''Time values cannot be negative'')"
      by (simp add: validate_data_def required_columns_def empty neg)
  next
    assume "''Driver'' \<in> set (df_columns df) \<and> ''Time'' \<in> set (df_columns df) \<and> 0 < df_len df \<and>
      map_of df ''Time'' = Some (Numeric ts) \<and> (\<forall>t. Some t \<in> set ts \<longrightarrow> 0 \<le> t)"
    then show "validate_data df = Inr True"
      by (simp add: validate_data_def required_columns_def empty nonneg)
  qed
qed

text \<open>One frame for each outcome; the last one has a blank time.\<close>

theorem validate_data_outcomes_witness:
  "validate_data wrong_column_data
     = Inl (ValueError ''Missing required columns. Expected: ['Driver', 'Time']'') \<and>
   validate_data empty_data = Inl (ValueError ''Input file is empty'') \<and>
   validate_data text_time_data = Inl (ValueError ''Time column must contain numeric values'') \<and>
   validate_data negative_time_data = Inl (ValueError ''Time values cannot be negative'') \<and>
   validate_data blank_time_data = Inr True"
proof -
  have "validate_data wrong_column_data
     = Inl (ValueError ''Missing required columns. Expected: ['Driver', 'Time']'')"
    using validate_data_outcomes [of wrong_column_data]
    by (simp add: wrong_column_data_def df_columns_def)
  moreover have "validate_data empty_data = Inl (ValueError ''Input file is empty'')"
    using validate_data_outcomes [of empty_data]
    by (simp add: empty_data_def df_columns_def)
  moreover have "validate_data text_time_data
     = Inl (ValueError ''Time column must contain numeric values'')"
    using validate_data_outcomes [of text_time_data "[Some ''fast'']"]
    by (simp add: text_time_data_def df_columns_def)
  moreover have "validate_data negative_time_data
     = Inl (ValueError ''Time values cannot be negative'')"
    using validate_data_outcomes [of negative_time_data _ "[Some (- 4.32)]"]
    by (simp add: negative_time_data_def df_columns_def)
  moreover have "validate_data blank_time_data = Inr True"
    using validate_data_outcomes [of blank_time_data _ "[Some 4.32, None, Some 4.28]"]
    by (auto simp: blank_time_data_def df_columns_def)
  ultimately show ?thesis
    by simp
qed

text \<open>
  Claim C4. \<open>transform\<close> before any data is loaded fails, and \<open>get_top_n\<close> before any
  result exists fails (PreconditionError, a \<open>ValueError\<close> with a message of its own in the
  program); no result is returned in either case.
\<close>

theorem stages_out_of_order:
  "(data p = None \<longrightarrow>
      transform srt avg p = Inl (ValueError ''No data loaded. Call extract() first.'')) \<and>
   (results p = None \<longrightarrow>
      get_top_n n p = Inl (ValueError ''No results available. Call transform() first.''))"
  by (simp add: transform_def get_top_n_def)

text \<open>A fresh processor, and one with data but without results.\<close>

theorem stages_out_of_order_witness:
  "data (init ''f1_lap_times.csv'') = None \<and>
   transform insertion_sort mean (init ''f1_lap_times.csv'')
     = Inl (ValueError ''No data loaded. Call extract() first.'') \<and>
   results test_processor = None \<and>
   get_top_n 3 test_processor = Inl (ValueError ''No results available. Call transform() first.'')"
  using stages_out_of_order [of "init ''f1_lap_times.csv''" insertion_sort mean]
    stages_out_of_order [of test_processor _ _ 3]
  by (simp add: init_def test_processor_def)

text \<open>
  Claim C5, as stated: for every valid input, the ranks of the result are exactly
  \<open>1, \<dots>, K\<close> and the \<open>average_time\<close> values taken in rank order never decrease. This
  fails on the file with the lines \<open>Hamilton,4.32\<close> and \<open>Verstappen,\<close>, which
  \<open>validate_data\<close> accepts: Verstappen has no time, his average is \<open>NaN\<close>, and the averages
  in rank order are 4.32 and \<open>NaN\<close>, of which the first is not below or equal to the
  second.
\<close>

theorem nan_average_counterexample:
  "\<exists>res p'.
     sort_values_spec insertion_sort \<and> well_formed no_time_data \<and>
     validate_data no_time_data = Inr True \<and> data no_time_processor = Some no_time_data \<and>
     transform insertion_sort mean no_time_processor = Inr (res, p') \<and>
     map rank res = [1, 2] \<and>
     map average_time res = [Some 4.32, None] \<and>
     \<not> sorted_wrt float_le (map average_time res)"
  by (simp add: insertion_sort_meets_spec frames_well_formed frames_valid frames_loaded
      no_time_data_transformed)

text \<open>
  Claim C5, amended: for every valid input with at least one driver, the ranks of the
  result are exactly \<open>1, \<dots>, K\<close>, without gaps and without duplicates, where \<open>K\<close> is the
  number of distinct drivers; the \<open>average_time\<close> values taken in rank order are numbers
  that never decrease, followed by the \<open>NaN\<close>s of the drivers without any time; where no
  time is missing there is no \<open>NaN\<close>, and the averages in rank order never decrease. (A
  valid input without any driver has no result, see \<open>transform_no_driver\<close>.)
\<close>

theorem ranks_dense_and_ordered:
  assumes "sort_values_spec srt" and "well_formed df" and "validate_data df = Inr True"
    and "data p = Some df" and "0 < nunique (driver_column df)"
  shows "\<exists>res p'. transform srt avg p = Inr (res, p') \<and>
           map rank res = [1 ..< nunique (driver_column df) + 1] \<and>
           distinct (map rank res) \<and>
           set (map rank res) = {1 .. nunique (driver_column df)} \<and>
           nunique (driver_column df) = card {d. Some d \<in> set (driver_column df)} \<and>
           (\<exists>xs n. map average_time res = map Some xs @ replicate n None \<and> sorted xs) \<and>
           (None \<notin> set (time_column df) \<longrightarrow> sorted_wrt float_le (map average_time res))"
proof -
  from assms obtain ds ts grouped res where ds: "driver_column df = ds"
    and ts: "time_column df = ts" and l: "length ds = length ts"
    and grouped: "grouped = map (agg avg ds ts) (group_keys ds)"
    and res: "res = sort_rank_round srt grouped"
    and tr: "transform srt avg p = Inr (res, p\<lparr>results := Some res\<rparr>)"
    by (rule transform_valid)
  have r: "map rank res = [1 ..< nunique (driver_column df) + 1]"
    by (simp only: res rank_sort_rank_round [OF assms(1)] grouped length_map length_group_keys ds)
  have s: "set [1 ..< nunique (driver_column df) + 1] = {1 .. nunique (driver_column df)}"
    by auto
  from assms(1) obtain xs n where split: "map average_time res = map Some xs @ replicate n None"
    and sorted: "sorted xs"
    unfolding res by (rule averages_split)
  have complete: "sorted_wrt float_le (map average_time res)" if "None \<notin> set (time_column df)"
  proof -
    have "\<forall>g\<in>set grouped. average_time g \<noteq> None"
      using that l no_blank_time_average [of ts ds _ avg] by (simp only: ts grouped) blast
    then have "None \<notin> set (map average_time res)"
      unfolding res using assms(1) by (intro averages_some)
    with split have "n = 0"
      by (cases n) auto
    with split sorted show ?thesis
      by (simp add: sorted_float_le)
  qed
  have "\<exists>xs n. map average_time res = map Some xs @ replicate n None \<and> sorted xs"
    using split sorted by blast
  with tr r s complete show ?thesis
    by (intro exI [of _ res] exI [of _ "p\<lparr>results := Some res\<rparr>"])
      (simp add: nunique_card)
qed

text \<open>
  The file with the lines \<open>Hamilton,4.32\<close> and \<open>Verstappen,\<close>: ranks 1 and 2, the average
  4.32 and then the \<open>NaN\<close>.
\<close>

theorem ranks_dense_and_ordered_witness:
  "sort_values_spec insertion_sort \<and> well_formed no_time_data \<and>
   validate_data no_time_data = Inr True \<and> data no_time_processor = Some no_time_data \<and>
   0 < nunique (driver_column no_time_data) \<and>
   (\<exists>res p'. transform insertion_sort mean no_time_processor = Inr (res, p') \<and>
      map rank res = [1, 2] \<and>
      map average_time res = map Some [4.32] @ replicate 1 None \<and> sorted [4.32 :: real])"
proof -
  have "\<exists>res p'. transform insertion_sort mean no_time_processor = Inr (res, p') \<and>
           map rank res = [1 ..< nunique (driver_column no_time_data) + 1] \<and>
           distinct (map rank res) \<and>
           set (map rank res) = {1 .. nunique (driver_column no_time_data)} \<and>
           nunique (driver_column no_time_data)
             = card {d. Some d \<in> set (driver_column no_time_data)} \<and>
           (\<exists>xs n. map average_time res = map Some xs @ replicate n None \<and> sorted xs) \<and>
           (None \<notin> set (time_column no_time_data) \<longrightarrow>
              sorted_wrt float_le (map average_time res))"
    by (rule ranks_dense_and_ordered [OF insertion_sort_meets_spec frames_well_formed(6)
          frames_valid(6) frames_loaded(6)]) (simp add: frames_nunique)
  then obtain res p' where t: "transform insertion_sort mean no_time_processor = Inr (res, p')"
    and r: "map rank res = [1 ..< nunique (driver_column no_time_data) + 1]"
    by blast
  have f1: "map rank res = [1, 2]"
    using r by (simp add: frames_nunique upt_rec)
  have f2: "map average_time res = map Some [4.32] @ replicate 1 None"
    using t by (auto simp: no_time_data_transformed)
  have "\<exists>res p'. transform insertion_sort mean no_time_processor = Inr (res, p') \<and>
      map rank res = [1, 2] \<and>
      map average_time res = map Some [4.32] @ replicate 1 None \<and> sorted [4.32 :: real]"
    by (rule exI [of _ res], rule exI [of _ p']) (intro conjI t f1 f2, simp)
  moreover have "0 < nunique (driver_column no_time_data)"
    by (simp add: frames_nunique)
  ultimately show ?thesis
    by (intro conjI insertion_sort_meets_spec frames_well_formed frames_valid frames_loaded)
qed

text \<open>
  Claim C6, as stated: for every valid input, the \<open>lap_count\<close> values of all rows of the
  result add up to the number of input records. This fails on the file with the lines
  \<open>Hamilton,4.32\<close>, \<open>Hamilton,\<close> and \<open>Verstappen,4.28\<close>, which \<open>validate_data\<close> accepts:
  \<open>count\<close> leaves the blank time out, and the lap counts are 1 and 1 for three records.
\<close>

theorem blank_time_counterexample:
  "\<exists>res p'.
     sort_values_spec insertion_sort \<and> well_formed blank_time_data \<and>
     validate_data blank_time_data = Inr True \<and>
     data blank_time_processor = Some blank_time_data \<and>
     transform insertion_sort mean blank_time_processor = Inr (res, p') \<and>
     df_len blank_time_data = 3 \<and> length (records blank_time_data) = 3 \<and>
     map lap_count res = [1, 1] \<and>
     sum_list (map lap_count res) \<noteq> df_len blank_time_data"
  by (simp add: insertion_sort_meets_spec frames_well_formed frames_valid frames_loaded
      blank_time_data_transformed)
    (simp add: blank_time_data_def records_def driver_column_def time_column_def)

text \<open>
  Claim C6, amended: for every valid input with at least one driver, the \<open>lap_count\<close>
  values of all rows of the result add up to the number of input records that have both a
  driver and a time; where no cell is missing, this is the number of all input records.
\<close>

theorem lap_counts_sum_to_records:
  assumes "sort_values_spec srt" and "well_formed df" and "validate_data df = Inr True"
    and "data p = Some df" and "0 < nunique (driver_column df)"
  shows "\<exists>res p'. transform srt avg p = Inr (res, p') \<and>
           sum_list (map lap_count res)
             = length (filter (\<lambda>(d, t). d \<noteq> None \<and> t \<noteq> None) (records df)) \<and>
           (None \<notin> set (driver_column df) \<and> None \<notin> set (time_column df) \<longrightarrow>
              sum_list (map lap_count res) = df_len df)"
proof -
  from assms obtain ds ts grouped res where ds: "driver_column df = ds"
    and ts: "time_column df = ts" and l: "length ds = length ts"
    and grouped: "grouped = map (agg avg ds ts) (group_keys ds)"
    and res: "res = sort_rank_round srt grouped"
    and tr: "transform srt avg p = Inr (res, p\<lparr>results := Some res\<rparr>)"
    by (rule transform_valid)
  from assms(2,3) have len: "length ds = df_len df"
    using ds by (auto elim: valid_lengths)
  have sum: "sum_list (map lap_count res)
      = length (filter (\<lambda>(d, t). d \<noteq> None \<and> t \<noteq> None) (records df))"
    by (simp only: res lap_count_sort_rank_round sum_list_sorted_rows [OF assms(1)] grouped
        sum_lap_count_grouped records_def ds ts)
  have "sum_list (map lap_count res) = df_len df"
    if "None \<notin> set (driver_column df) \<and> None \<notin> set (time_column df)"
    using that l len by (simp add: sum records_def ds ts complete_rows_all del: not_None_eq)
  with tr sum show ?thesis
    by blast
qed

text \<open>
  The file with the lines \<open>Hamilton,4.32\<close>, \<open>Hamilton,\<close> and \<open>Verstappen,4.28\<close>: two of the
  three records have a driver and a time, and the lap counts add up to 2.
\<close>

theorem lap_counts_sum_to_records_witness:
  "sort_values_spec insertion_sort \<and> well_formed blank_time_data \<and>
   validate_data blank_time_data = Inr True \<and>
   data blank_time_processor = Some blank_time_data \<and>
   0 < nunique (driver_column blank_time_data) \<and>
   length (filter (\<lambda>(d, t). d \<noteq> None \<and> t \<noteq> None) (records blank_time_data)) = 2 \<and>
   (\<exists>res p'. transform insertion_sort mean blank_time_processor = Inr (res, p') \<and>
      sum_list (map lap_count res) = 2)"
proof -
  have n: "length (filter (\<lambda>(d, t). d \<noteq> None \<and> t \<noteq> None) (records blank_time_data)) = 2"
    by (simp add: blank_time_data_def records_def driver_column_def time_column_def
        del: not_None_eq)
  have "\<exists>res p'. transform insertion_sort mean blank_time_processor = Inr (res, p') \<and>
           sum_list (map lap_count res)
             = length (filter (\<lambda>(d, t). d \<noteq> None \<and> t \<noteq> None) (records blank_time_data)) \<and>
           (None \<notin> set (driver_column blank_time_data) \<and>
            None \<notin> set (time_column blank_time_data) \<longrightarrow>
              sum_list (map lap_count res) = df_len blank_time_data)"
    by (rule lap_counts_sum_to_records [OF insertion_sort_meets_spec frames_well_formed(4)
          frames_valid(4) frames_loaded(4)]) (simp add: frames_nunique)
  then have "\<exists>res p'. transform insertion_sort mean blank_time_processor = Inr (res, p') \<and>
      sum_list (map lap_count res) = 2"
    unfolding n by blast
  moreover have "0 < nunique (driver_column blank_time_data)"
    by (simp add: frames_nunique)
  ultimately show ?thesis
    by (intro conjI insertion_sort_meets_spec frames_well_formed frames_valid frames_loaded n)
qed






text \<open>
  Claim C9, as stated: for every valid input and every top-\<open>N\<close> count \<open>N\<close>, the summary
  has \<open>total_drivers_analyzed = K\<close>, \<open>total_laps_analyzed\<close> equal to the number of all input
  records, and \<open>min N K\<close> entries in \<open>top_drivers\<close>. This fails on the file with the lines
  \<open>Hamilton,4.32\<close>, \<open>,4.40\<close> and \<open>Verstappen,4.28\<close>, which \<open>validate_data\<close> accepts:
  \<open>self.data['Driver'].count()\<close> leaves the blank driver out, and \<open>total_laps_analyzed\<close>
  is 2 for three records.
\<close>

theorem blank_driver_counterexample:
  "\<exists>res p' s.
     sort_values_spec insertion_sort \<and> well_formed blank_driver_data \<and>
     validate_data blank_driver_data = Inr True \<and>
     data blank_driver_processor = Some blank_driver_data \<and>
     transform insertion_sort mean blank_driver_processor = Inr (res, p') \<and>
     load_json 3 p' = Inr s \<and>
     df_len blank_driver_data = 3 \<and> length (records blank_driver_data) = 3 \<and>
     total_laps_analyzed s = 2 \<and>
     total_laps_analyzed s \<noteq> df_len blank_driver_data"
  by (simp add: insertion_sort_meets_spec frames_well_formed frames_valid frames_loaded
      blank_driver_data_transformed)
    (simp add: load_json_def get_top_n_def blank_driver_processor_def blank_driver_data_def
      records_def driver_column_def time_column_def)

text \<open>
  Claim C9, amended: for every valid input with at least one driver and every top-\<open>N\<close>
  argument, the summary that \<open>load_json\<close> writes has \<open>total_drivers_analyzed = K\<close>, the
  number of all distinct drivers, and \<open>total_laps_analyzed\<close> equal to the number of input
  records that have a driver, whatever \<open>N\<close> is; where no driver is missing, this is the
  number of all input records. \<open>top_drivers\<close> has \<open>min N K\<close> entries for a count
  \<open>N \<ge> 0\<close> (and \<open>K - |N|\<close> for a negative argument, see C10).
\<close>

theorem summary_totals:
  assumes "sort_values_spec srt" and "well_formed df" and "validate_data df = Inr True"
    and "data p = Some df" and "0 < nunique (driver_column df)"
  shows "\<exists>res p' s. transform srt avg p = Inr (res, p') \<and> load_json n p' = Inr s \<and>
           total_drivers_analyzed s = nunique (driver_column df) \<and>
           total_laps_analyzed s = length (filter (\<lambda>(d, t). d \<noteq> None) (records df)) \<and>
           (None \<notin> set (driver_column df) \<longrightarrow> total_laps_analyzed s = df_len df) \<and>
           top_drivers s = head n res \<and>
           length (top_drivers s)
             = (if 0 \<le> n then min (nat n) (nunique (driver_column df))
                else nunique (driver_column df) - nat (- n))"
proof -
  from assms obtain ds ts grouped res where ds: "driver_column df = ds"
    and ts: "time_column df = ts" and l: "length ds = length ts"
    and grouped: "grouped = map (agg avg ds ts) (group_keys ds)"
    and res: "res = sort_rank_round srt grouped"
    and tr: "transform srt avg p = Inr (res, p\<lparr>results := Some res\<rparr>)"
    by (rule transform_valid)
  from assms(2,3) obtain dc where dc: "map_of df ''Driver'' = Some dc"
    and dlen: "length (driver_column df) = df_len df"
    by (rule valid_lengths)
  have cells: "cells dc = ds"
    using driver_column_eq [OF dc] ds by simp
  have len: "length res = nunique (driver_column df)"
    by (simp only: res length_sort_rank_round [OF assms(1)] grouped length_map
        length_group_keys ds)
  define s where "s = \<lparr>top_drivers = head n res, total_drivers_analyzed = length res,
    total_laps_analyzed = length (dropna ds)\<rparr>"
  have "load_json n (p\<lparr>results := Some res\<rparr>) = Inr s"
    using assms(4) dc by (simp add: load_json_def get_top_n_def s_def cells)
  moreover have "total_drivers_analyzed s = nunique (driver_column df)"
    by (simp add: s_def len)
  moreover have laps: "total_laps_analyzed s = length (filter (\<lambda>(d, t). d \<noteq> None) (records df))"
    using length_filter_fst [OF l, of "\<lambda>d. d \<noteq> None"]
    by (simp add: s_def records_def ds ts length_dropna del: not_None_eq)
  moreover have "total_laps_analyzed s = df_len df" if "None \<notin> set (driver_column df)"
  proof -
    have "x \<noteq> None" if "x \<in> set ds" for x
      using that \<open>None \<notin> set (driver_column df)\<close> unfolding ds by metis
    then have "filter (\<lambda>x. x \<noteq> None) ds = ds"
      by (simp add: filter_id_conv del: not_None_eq)
    then show ?thesis
      using dlen by (simp add: s_def length_dropna ds del: not_None_eq)
  qed
  moreover have "top_drivers s = head n res"
    by (simp add: s_def)
  moreover have "length (top_drivers s)
      = (if 0 \<le> n then min (nat n) (nunique (driver_column df))
         else nunique (driver_column df) - nat (- n))"
    using len by (simp add: s_def head_def min.commute)
  ultimately show ?thesis
    using tr by blast
qed

text \<open>
  The file with the lines \<open>Hamilton,4.32\<close>, \<open>,4.40\<close> and \<open>Verstappen,4.28\<close> with \<open>N = 1\<close>:
  two drivers, two records with a driver, one row in \<open>top_drivers\<close>.
\<close>

theorem summary_totals_witness:
  "sort_values_spec insertion_sort \<and> well_formed blank_driver_data \<and>
   validate_data blank_driver_data = Inr True \<and>
   data blank_driver_processor = Some blank_driver_data \<and>
   0 < nunique (driver_column blank_driver_data) \<and>
   length (filter (\<lambda>(d, t). d \<noteq> None) (records blank_driver_data)) = 2 \<and>
   (\<exists>res p' s. transform insertion_sort mean blank_driver_processor = Inr (res, p') \<and>
        load_json 1 p' = Inr s \<and>
        total_drivers_analyzed s = 2 \<and> total_laps_analyzed s = 2 \<and>
        length (top_drivers s) = 1)"
proof -
  have n: "length (filter (\<lambda>(d, t). d \<noteq> None) (records blank_driver_data)) = 2"
    by (simp add: blank_driver_data_def records_def driver_column_def time_column_def
        del: not_None_eq)
  have "\<exists>res p' s. transform insertion_sort mean blank_driver_processor = Inr (res, p') \<and>
           load_json 1 p' = Inr s \<and>
           total_drivers_analyzed s = nunique (driver_column blank_driver_data) \<and>
           total_laps_analyzed s
             = length (filter (\<lambda>(d, t). d \<noteq> None) (records blank_driver_data)) \<and>
           (None \<notin> set (driver_column blank_driver_data) \<longrightarrow>
              total_laps_analyzed s = df_len blank_driver_data) \<and>
           top_drivers s = head 1 res \<and>
           length (top_drivers s)
             = (if 0 \<le> (1::int) then min (nat 1) (nunique (driver_column blank_driver_data))
                else nunique (driver_column blank_driver_data) - nat (- 1))"
    by (rule summary_totals [OF insertion_sort_meets_spec frames_well_formed(5)
          frames_valid(5) frames_loaded(5)]) (simp add: frames_nunique)
  then have "\<exists>res p' s. transform insertion_sort mean blank_driver_processor = Inr (res, p') \<and>
        load_json 1 p' = Inr s \<and>
        total_drivers_analyzed s = 2 \<and> total_laps_analyzed s = 2 \<and>
        length (top_drivers s) = 1"
    unfolding n frames_nunique by auto
  moreover have "0 < nunique (driver_column blank_driver_data)"
    by (simp add: frames_nunique)
  ultimately show ?thesis
    by (intro conjI insertion_sort_meets_spec frames_well_formed frames_valid frames_loaded n)
qed

text \<open>
  Claim C10. For every ranked result with \<open>K\<close> rows and every \<open>n \<le> 0\<close>, \<open>get_top_n\<close>
  raises no error: for \<open>n = 0\<close> it returns no rows, and for a negative \<open>n\<close> the first
  \<open>K - |n|\<close> rows, that is all rows but the last \<open>|n|\<close>, and no rows when \<open>|n| \<ge> K\<close>.
\<close>

theorem top_n_not_positive:
  assumes "results p = Some res" and "n \<le> 0"
  shows "\<exists>rows. get_top_n n p = Inr rows \<and>
           (n = 0 \<longrightarrow> rows = []) \<and>
           (n < 0 \<longrightarrow> rows = take (length res - nat (- n)) res \<and>
              rows = rev (drop (nat (- n)) (rev res)) \<and>
              length rows = length res - nat (- n) \<and>
              (length res \<le> nat (- n) \<longrightarrow> rows = []))"
  using assms by (auto simp: get_top_n_def head_def rev_drop)

text \<open>The three rows of the unit tests' result with \<open>n = 0\<close>, \<open>n = -1\<close> and \<open>n = -5\<close>.\<close>

theorem top_n_not_positive_witness:
  "results (test_processor\<lparr>results := Some test_results\<rparr>) = Some test_results \<and>
   get_top_n 0 (test_processor\<lparr>results := Some test_results\<rparr>) = Inr [] \<and>
   get_top_n (- 1) (test_processor\<lparr>results := Some test_results\<rparr>) = Inr (take 2 test_results) \<and>
   get_top_n (- 5) (test_processor\<lparr>results := Some test_results\<rparr>) = Inr []"
  using top_n_not_positive [of "test_processor\<lparr>results := Some test_results\<rparr>" test_results 0]
    top_n_not_positive [of "test_processor\<lparr>results := Some test_results\<rparr>" test_results "- 1"]
    top_n_not_positive [of "test_processor\<lparr>results := Some test_results\<rparr>" test_results "- 5"]
  by (auto simp: test_results_def)

end
